theory Spec2Isabelle
  imports Complex_Main
begin

section \<open>Python values used by \<open>demo/benchmark_optimization.py\<close>\<close>

text \<open>
  A Python \<open>str\<close> is a sequence of Unicode code points, so it is modelled as a list of
  natural numbers; \<open>len\<close> is \<open>length\<close>.  ASCII literals of the source are written with
  \<open>lit\<close>.
\<close>

type_synonym pystr = "nat list"

definition lit :: "string \<Rightarrow> pystr" where
  "lit s = map of_char s"

text \<open>The ASCII letters and digits, \<open>[A-Za-z0-9]\<close>.\<close>

definition ascii_alnum :: "nat \<Rightarrow> bool" where
  "ascii_alnum c = ((48 \<le> c \<and> c \<le> 57) \<or> (65 \<le> c \<and> c \<le> 90) \<or> (97 \<le> c \<and> c \<le> 122))"

text \<open>
  The class \<open>\w\<close> of Python's \<open>re\<close> on a \<open>str\<close> pattern (no \<open>re.ASCII\<close> flag): the
  alphanumeric characters of the Unicode database and the underscore (code point 95).
  On ASCII this is \<open>[A-Za-z0-9_]\<close>.  The Unicode database is not part of the repository;
  its alphanumeric test on the code points from 128 on is the parameter \<open>U\<close>.
\<close>

definition word_char :: "(nat \<Rightarrow> bool) \<Rightarrow> nat \<Rightarrow> bool" where
  "word_char U c = (if c < 128 then ascii_alnum c \<or> c = 95 else U c)"

text \<open>
  The alphanumeric code points of the Latin-1 Supplement block (U+0080 to U+00FF) as the
  Unicode database has them: the letters, the ordinal indicators, the micro sign, the
  superscript digits and the vulgar fractions.  Code points beyond the block are not
  tabulated here.
\<close>

definition latin1_alnum :: "nat \<Rightarrow> bool" where
  "latin1_alnum c =
     (c = 170 \<or> c = 178 \<or> c = 179 \<or> c = 181 \<or> c = 185 \<or> c = 186
      \<or> (188 \<le> c \<and> c \<le> 190) \<or> (192 \<le> c \<and> c \<le> 214)
      \<or> (216 \<le> c \<and> c \<le> 246) \<or> (248 \<le> c \<and> c \<le> 255))"

section \<open>\<open>_sanitize_filename\<close>\<close>

text \<open>
  \<open>re.sub(r'[^\w\-_.]', '_', filename)\<close>: every character outside the class
  (\<open>\w\<close>, hyphen 45, underscore 95, full stop 46) becomes an underscore.
\<close>

definition sub_unsafe :: "(nat \<Rightarrow> bool) \<Rightarrow> pystr \<Rightarrow> pystr" where
  "sub_unsafe U filename =
     map (\<lambda>c. if word_char U c \<or> c = 45 \<or> c = 95 \<or> c = 46 then c else 95) filename"

text \<open>\<open>safe_name.lstrip('.')\<close>.\<close>

definition lstrip_dot :: "pystr \<Rightarrow> pystr" where
  "lstrip_dot s = dropWhile (\<lambda>c. c = 46) s"

definition sanitize_filename :: "(nat \<Rightarrow> bool) \<Rightarrow> pystr \<Rightarrow> pystr" where
  "sanitize_filename U filename =
     (let safe_name = sub_unsafe U filename;
          safe_name = lstrip_dot safe_name;
          safe_name = (if safe_name = [] then lit ''unnamed'' else safe_name)
      in take 50 safe_name)"

text \<open>The character set \<open>[A-Za-z0-9_.-]\<close> of the specification.\<close>

definition spec_char :: "nat \<Rightarrow> bool" where
  "spec_char c = (ascii_alnum c \<or> c = 95 \<or> c = 46 \<or> c = 45)"

text \<open>\<open>s.startswith('.')\<close>.\<close>

definition starts_with_dot :: "pystr \<Rightarrow> bool" where
  "starts_with_dot s = (case s of [] \<Rightarrow> False | c # _ \<Rightarrow> c = 46)"


section \<open>More of Python's \<open>str\<close>\<close>

text \<open>\<open>sep.join(items)\<close>.\<close>

fun join :: "pystr \<Rightarrow> pystr list \<Rightarrow> pystr" where
  "join sep [] = []"
| "join sep [x] = x"
| "join sep (x # y # ys) = x @ sep @ join sep (y # ys)"

text \<open>\<open>str(n)\<close> for a non-negative integer: its decimal digits.\<close>

function str_nat :: "nat \<Rightarrow> pystr" where
  "str_nat n = (if n < 10 then [48 + n] else str_nat (n div 10) @ [48 + n mod 10])"
  by pat_completeness auto
termination
  by (relation "measure id") auto

declare str_nat.simps [simp del]

text \<open>\<open>s.startswith(prefix)\<close> and \<open>s.endswith(suffix)\<close>.\<close>

definition startswith :: "pystr \<Rightarrow> pystr \<Rightarrow> bool" where
  "startswith s pre = (take (length pre) s = pre)"

definition endswith :: "pystr \<Rightarrow> pystr \<Rightarrow> bool" where
  "endswith s suf = (length suf \<le> length s \<and> drop (length s - length suf) s = suf)"

text \<open>\<open>s.split(sep)\<close> for a separator of one character: never an empty list.\<close>

fun split_char :: "nat \<Rightarrow> pystr \<Rightarrow> pystr list" where
  "split_char sep [] = [[]]"
| "split_char sep (c # cs) =
     (if c = sep then [] # split_char sep cs
      else (case split_char sep cs of [] \<Rightarrow> [[c]] | x # xs \<Rightarrow> (c # x) # xs))"

text \<open>\<open>c.isspace()\<close>: the whitespace characters of the Unicode database.\<close>

definition isspace :: "nat \<Rightarrow> bool" where
  "isspace c =
     ((9 \<le> c \<and> c \<le> 13) \<or> (28 \<le> c \<and> c \<le> 32) \<or> c = 133 \<or> c = 160 \<or> c = 5760
      \<or> (8192 \<le> c \<and> c \<le> 8202) \<or> c = 8232 \<or> c = 8233 \<or> c = 8239 \<or> c = 8287
      \<or> c = 12288)"

text \<open>The truth value of \<open>line.strip()\<close>: some character is not whitespace.\<close>

definition strip_nonempty :: "pystr \<Rightarrow> bool" where
  "strip_nonempty s = (\<not> list_all isspace s)"

text \<open>
  \<open>len(content.splitlines())\<close>.  A line ends at a line boundary character or at the end
  of the text; \<open>\r\n\<close> is one boundary.  The flag says whether the current line has
  characters already.
\<close>

definition line_boundary :: "nat \<Rightarrow> bool" where
  "line_boundary c =
     ((10 \<le> c \<and> c \<le> 13) \<or> (28 \<le> c \<and> c \<le> 30) \<or> c = 133 \<or> c = 8232 \<or> c = 8233)"

fun count_lines :: "bool \<Rightarrow> pystr \<Rightarrow> nat" where
  "count_lines pending [] = (if pending then 1 else 0)"
| "count_lines pending [c] = (if line_boundary c then 1 else count_lines True [])"
| "count_lines pending (c # d # cs) =
     (if c = 13 \<and> d = 10 then Suc (count_lines False cs)
      else if line_boundary c then Suc (count_lines False (d # cs))
      else count_lines True (d # cs))"

section \<open>Exceptions\<close>

text \<open>
  The exceptions of the module, each with the text \<open>str(e)\<close> gives.  \<open>ValueError\<close> and
  \<open>FileNotFoundError\<close> are raised by the source itself; the library raises the others
  and \<open>FileNotFoundError\<close> too.
\<close>

datatype exn =
    ValueError pystr
  | FileNotFoundError pystr
  | FileExistsError pystr
  | NotADirectoryError pystr
  | IsADirectoryError pystr
  | PermissionError pystr
  | UnicodeDecodeError pystr
  | OSError pystr
  | KeyError pystr
  | ZeroDivisionError pystr

fun exn_str :: "exn \<Rightarrow> pystr" where
  "exn_str (ValueError m) = m"
| "exn_str (FileNotFoundError m) = m"
| "exn_str (FileExistsError m) = m"
| "exn_str (NotADirectoryError m) = m"
| "exn_str (IsADirectoryError m) = m"
| "exn_str (PermissionError m) = m"
| "exn_str (UnicodeDecodeError m) = m"
| "exn_str (OSError m) = m"
| "exn_str (KeyError m) = m"
| "exn_str (ZeroDivisionError m) = m"

section \<open>Paths and the file system\<close>

text \<open>
  A \<open>pathlib.Path\<close> is the sequence of its components (\<open>parts\<close>); an absolute path
  starts with the component \<open>/\<close>.  \<open>p / name\<close> for a name without separator appends one
  component, written \<open>p @ [name]\<close>.
\<close>

type_synonym path = "pystr list"

text \<open>\<open>str(p)\<close>.\<close>

definition path_str :: "path \<Rightarrow> pystr" where
  "path_str p =
     (case p of
        [] \<Rightarrow> lit ''.''
      | c # cs \<Rightarrow> if c = lit ''/'' then c @ join (lit ''/'') cs else join (lit ''/'') p)"

text \<open>\<open>p.parent\<close>: the root and the empty path are their own parents.\<close>

definition path_parent :: "path \<Rightarrow> path" where
  "path_parent p = (if p = [lit ''/''] then p else butlast p)"

text \<open>\<open>p.name\<close>: the last component, empty for the root and the empty path.\<close>

definition path_name :: "path \<Rightarrow> pystr" where
  "path_name p = (if p = [] \<or> p = [lit ''/''] then [] else last p)"

text \<open>\<open>name.rfind('.')\<close>: the index of the last full stop, \<open>None\<close> for Python's \<open>-1\<close>.\<close>

definition rfind_dot :: "pystr \<Rightarrow> nat option" where
  "rfind_dot name =
     (case dropWhile (\<lambda>c. c \<noteq> 46) (rev name) of [] \<Rightarrow> None | _ # r \<Rightarrow> Some (length r))"

text \<open>
  \<open>p.stem\<close>: the name without its last suffix; a full stop at the start or at the end of
  the name starts no suffix.
\<close>

definition path_stem :: "path \<Rightarrow> pystr" where
  "path_stem p =
     (let name = path_name p in
      case rfind_dot name of
        None \<Rightarrow> name
      | Some i \<Rightarrow> if 0 < i \<and> i < length name - 1 then take i name else name)"

text \<open>
  \<open>Path(s).name\<close> for a string: the last component of \<open>s\<close> that is neither empty nor
  \<open>.\<close>, empty when there is none.
\<close>

definition name_of_str :: "pystr \<Rightarrow> pystr" where
  "name_of_str s =
     (case rev (filter (\<lambda>c. c \<noteq> [] \<and> c \<noteq> lit ''.'') (split_char 47 s)) of
        [] \<Rightarrow> []
      | c # _ \<Rightarrow> c)"

text \<open>
  A file system entry is a directory or a regular file.  A regular file has what
  \<open>read_text\<close> does on it, which is to return its text or to raise an error (say
  \<open>UnicodeDecodeError\<close> for bytes that are no text, or \<open>PermissionError\<close>), and the byte
  size \<open>stat\<close> reports.  The file system is an association list from paths to entries;
  the first entry of a path counts.
\<close>

datatype node = File "exn + pystr" nat | Dir

type_synonym filesystem = "(path \<times> node) list"

text \<open>\<open>p.exists()\<close> and \<open>p.is_file()\<close>.\<close>

definition path_exists :: "filesystem \<Rightarrow> path \<Rightarrow> bool" where
  "path_exists fsys p = (map_of fsys p \<noteq> None)"

definition is_file :: "filesystem \<Rightarrow> path \<Rightarrow> bool" where
  "is_file fsys p = (case map_of fsys p of Some (File _ _) \<Rightarrow> True | _ \<Rightarrow> False)"

text \<open>
  \<open>d.glob("*.llm")\<close>: the entries of directory \<open>d\<close> whose name ends with \<open>.llm\<close>, in
  the order of the directory listing; nothing when \<open>d\<close> is not a directory.
\<close>

definition glob_llm :: "filesystem \<Rightarrow> path \<Rightarrow> path list" where
  "glob_llm fsys d =
     (if map_of fsys d = Some Dir
      then filter (\<lambda>p. p \<noteq> [] \<and> butlast p = d \<and> endswith (last p) (lit ''.llm''))
             (remdups (map fst fsys))
      else [])"

section \<open>The environment and the state of a run\<close>

text \<open>
  What \<open>subprocess.run(cmd, capture_output=True, text=True, timeout=30)\<close> does: it returns
  a completed process (return code, standard output, standard error), raises
  \<open>TimeoutExpired\<close>, or raises an \<open>OSError\<close> because the executable cannot be started.
\<close>

datatype proc_result = Completed int pystr pystr | TimeoutExpired | SpawnFailed pystr

text \<open>
  What lies outside the repository is a parameter of the model:
  \<^item> \<open>alnum\<close>: the alphanumeric test of the Unicode database on code points from 128 on;
  \<^item> \<open>execute\<close>: the run of an argument vector on a file system, started at a time:
    its result, the file system and the time afterwards;
  \<^item> \<open>strerror\<close>: the text of an operating system error, from its number and path;
  \<^item> \<open>encoded_len\<close>: the number of bytes \<open>write_text\<close> writes for a text;
  \<^item> \<open>fmt\<close>: \<open>fmt d x\<close> is the text of \<open>x\<close> under the format \<open>.df\<close>;
  \<^item> \<open>strftime\<close>: the text of a time under \<open>'%Y-%m-%d %H:%M:%S'\<close>.
  Floating point numbers are modelled by the rationals.
\<close>

record env =
  alnum :: "nat \<Rightarrow> bool"
  execute :: "pystr list \<Rightarrow> filesystem \<Rightarrow> rat \<Rightarrow> proc_result \<times> filesystem \<times> rat"
  strerror :: "nat \<Rightarrow> path \<Rightarrow> pystr"
  encoded_len :: "pystr \<Rightarrow> nat"
  fmt :: "nat \<Rightarrow> rat \<Rightarrow> pystr"
  strftime :: "rat \<Rightarrow> pystr"

text \<open>
  The state a run reads and changes: the file system, the clock \<open>time.time()\<close> reads,
  the calls of \<open>subprocess.run\<close> so far (the argument vector and what the call did) and
  the texts given to \<open>print\<close> so far, oldest first.
\<close>

record world =
  fs :: filesystem
  clock :: rat
  spawned :: "(pystr list \<times> proc_result) list"
  printed :: "pystr list"

definition print :: "pystr \<Rightarrow> world \<Rightarrow> world" where
  "print s w = w\<lparr>printed := printed w @ [s]\<rparr>"

definition subprocess_run :: "env \<Rightarrow> pystr list \<Rightarrow> world \<Rightarrow> proc_result \<times> world" where
  "subprocess_run E cmd w =
     (case execute E cmd (fs w) (clock w) of
        (res, fsys', t') \<Rightarrow> (res, w\<lparr>fs := fsys', clock := t', spawned := spawned w @ [(cmd, res)]\<rparr>))"

text \<open>\<open>p.mkdir(exist_ok=True)\<close>: the parent directory must exist.\<close>

definition mkdir_exist_ok :: "env \<Rightarrow> path \<Rightarrow> filesystem \<Rightarrow> exn + filesystem" where
  "mkdir_exist_ok E p fsys =
     (case map_of fsys p of
        Some Dir \<Rightarrow> Inr fsys
      | Some (File _ _) \<Rightarrow> Inl (FileExistsError (strerror E 17 p))
      | None \<Rightarrow>
          (case map_of fsys (path_parent p) of
             Some Dir \<Rightarrow> Inr (fsys @ [(p, Dir)])
           | Some (File _ _) \<Rightarrow> Inl (NotADirectoryError (strerror E 20 p))
           | None \<Rightarrow> Inl (FileNotFoundError (strerror E 2 p))))"

text \<open>\<open>p.write_text(text)\<close>: creates or replaces the file.\<close>

definition write_text :: "env \<Rightarrow> path \<Rightarrow> pystr \<Rightarrow> filesystem \<Rightarrow> exn + filesystem" where
  "write_text E p text fsys =
     (case map_of fsys p of
        Some Dir \<Rightarrow> Inl (IsADirectoryError (strerror E 21 p))
      | _ \<Rightarrow>
          (case map_of fsys (path_parent p) of
             Some Dir \<Rightarrow>
               Inr ((p, File (Inr text) (encoded_len E text)) # filter (\<lambda>(q, _). q \<noteq> p) fsys)
           | Some (File _ _) \<Rightarrow> Inl (NotADirectoryError (strerror E 20 p))
           | None \<Rightarrow> Inl (FileNotFoundError (strerror E 2 p))))"

text \<open>
  \<open>a / b\<close> on numbers.  (For a float dividend the text of the error is
  \<open>float division by zero\<close>; the model has the one text.)
\<close>

definition truediv :: "rat \<Rightarrow> rat \<Rightarrow> exn + rat" where
  "truediv a b = (if b = 0 then Inl (ZeroDivisionError (lit ''division by zero'')) else Inr (a / b))"

text \<open>
  \<open>d[key]\<close> on a dictionary whose key may be missing; \<open>str\<close> of a \<open>KeyError\<close> is
  the key between single quotes (code point 39).
\<close>

definition getitem :: "string \<Rightarrow> 'a option \<Rightarrow> exn + 'a" where
  "getitem key v =
     (case v of None \<Rightarrow> Inl (KeyError ([39] @ lit key @ [39])) | Some x \<Rightarrow> Inr x)"

text \<open>Sequencing: an exception ends the computation.\<close>

definition bind_exn :: "exn + 'a \<Rightarrow> ('a \<Rightarrow> exn + 'b) \<Rightarrow> exn + 'b" where
  "bind_exn r f = (case r of Inl e \<Rightarrow> Inl e | Inr x \<Rightarrow> f x)"

section \<open>The data of the benchmark\<close>

text \<open>The dictionary of \<open>get_file_stats\<close>: always the three keys.\<close>

record file_stats =
  size_bytes :: nat
  lines :: nat
  chars :: nat

text \<open>
  The dictionary \<open>run_optimization\<close> returns.  Its keys differ from one return
  statement to the other, so every key is optional: \<open>None\<close> is a missing key.
\<close>

record outcome =
  success :: "bool option"
  execution_time :: "rat option"
  stdout :: "pystr option"
  stderr :: "pystr option"
  error :: "pystr option"
  mode :: "pystr option"
  goal :: "pystr option"
  domain :: "pystr option"
  output_stats :: "file_stats option"

text \<open>
  The dictionary of \<open>benchmark_file\<close>: always the three keys (\<open>file_path\<close> is the key
  \<open>"file"\<close>).
\<close>

record file_result =
  file_path :: pystr
  original_stats :: file_stats
  optimizations :: "outcome list"

text \<open>The object \<open>MetaPromptBenchmark\<close>.\<close>

record benchmark =
  demo_dir :: path
  project_root :: path
  build_dir :: path
  cql_executable :: path

section \<open>\<open>MetaPromptBenchmark\<close>\<close>

text \<open>\<open>__init__\<close>; \<open>script\<close> is \<open>Path(__file__)\<close>.\<close>

definition init :: "path \<Rightarrow> path option \<Rightarrow> world \<Rightarrow> exn + benchmark" where
  "init script build_dir_arg w =
     (let demo = path_parent script;
          root = path_parent demo;
          bd = (case build_dir_arg of None \<Rightarrow> root @ [lit ''build''] | Some d \<Rightarrow> d);
          exe = bd @ [lit ''cql'']
      in if \<not> path_exists (fs w) exe
         then Inl (FileNotFoundError (lit ''CQL executable not found at '' @ path_str exe))
         else Inr \<lparr>demo_dir = demo, project_root = root, build_dir = bd,
                   cql_executable = exe\<rparr>)"

text \<open>
  \<open>get_file_stats\<close>: \<open>read_text\<close> comes first, so its error leaves the function; it
  raises \<open>IsADirectoryError\<close> on a directory.
\<close>

definition get_file_stats :: "env \<Rightarrow> filesystem \<Rightarrow> path \<Rightarrow> exn + file_stats" where
  "get_file_stats E fsys filepath =
     (case map_of fsys filepath of
        None \<Rightarrow> Inr \<lparr>size_bytes = 0, lines = 0, chars = 0\<rparr>
      | Some Dir \<Rightarrow> Inl (IsADirectoryError (strerror E 21 filepath))
      | Some (File (Inl e) sz) \<Rightarrow> Inl e
      | Some (File (Inr content) sz) \<Rightarrow>
          Inr \<lparr>size_bytes = sz, lines = count_lines False content, chars = length content\<rparr>)"

definition valid_modes :: "pystr list" where
  "valid_modes = [lit ''LOCAL_ONLY'', lit ''CACHED_LLM'', lit ''FULL_LLM'', lit ''ASYNC_LLM'']"

definition valid_goals :: "pystr list" where
  "valid_goals =
     [lit ''REDUCE_TOKENS'', lit ''IMPROVE_ACCURACY'', lit ''BALANCED'', lit ''DOMAIN_SPECIFIC'']"

text \<open>
  \<open>re.match(r'^[a-zA-Z0-9_-]+$', domain)\<close>: one or more characters of the class, up to
  the end of the string or up to one newline that ends the string.
\<close>

definition domain_matches :: "pystr \<Rightarrow> bool" where
  "domain_matches d =
     (let body = (if d \<noteq> [] \<and> last d = 10 then butlast d else d)
      in body \<noteq> [] \<and> list_all (\<lambda>c. ascii_alnum c \<or> c = 95 \<or> c = 45) body)"

definition validate_parameters ::
  "filesystem \<Rightarrow> path \<Rightarrow> pystr \<Rightarrow> pystr \<Rightarrow> pystr \<Rightarrow> exn + unit" where
  "validate_parameters fsys input_file mode' goal' domain' =
     (if \<not> path_exists fsys input_file
      then Inl (ValueError (lit ''Input file does not exist: '' @ path_str input_file))
      else if \<not> is_file fsys input_file
      then Inl (ValueError (lit ''Input path is not a file: '' @ path_str input_file))
      else if mode' \<notin> set valid_modes
      then Inl (ValueError (lit ''Invalid mode '' @ [39] @ mode' @ [39]
                  @ lit ''. Must be one of: '' @ join (lit '', '') valid_modes))
      else if goal' \<notin> set valid_goals
      then Inl (ValueError (lit ''Invalid goal '' @ [39] @ goal' @ [39]
                  @ lit ''. Must be one of: '' @ join (lit '', '') valid_goals))
      else if \<not> domain_matches domain'
      then Inl (ValueError (lit ''Invalid domain '' @ [39] @ domain' @ [39]
                  @ lit ''. Only alphanumeric characters, underscore, and hyphen allowed''))
      else if length domain' > 64
      then Inl (ValueError (lit ''Domain name too long: '' @ str_nat (length domain')
                  @ lit '' characters (max 64)''))
      else Inr ())"

text \<open>The output path of \<open>run_optimization\<close> (its lines 93 and 94).\<close>

definition output_path :: "env \<Rightarrow> benchmark \<Rightarrow> path \<Rightarrow> path" where
  "output_path E self input_file =
     (let safe_filename = sanitize_filename (alnum E) (path_stem input_file)
      in demo_dir self @ [lit ''temp''] @ [lit ''optimized_'' @ safe_filename @ lit ''.txt''])"

definition command :: "benchmark \<Rightarrow> path \<Rightarrow> path \<Rightarrow> pystr \<Rightarrow> pystr \<Rightarrow> pystr \<Rightarrow> pystr list" where
  "command self input_file output_file mode' goal' domain' =
     [path_str (cql_executable self), lit ''--optimize'', path_str input_file,
      path_str output_file, lit ''--mode'', mode', lit ''--goal'', goal',
      lit ''--domain'', domain', lit ''--show-metrics'', lit ''--show-validation'']"

text \<open>
  \<open>run_optimization\<close>.  The result is the dictionary returned or the exception that
  leaves the function, with the state after the call.
\<close>

definition run_optimization ::
  "env \<Rightarrow> benchmark \<Rightarrow> path \<Rightarrow> pystr \<Rightarrow> pystr \<Rightarrow> pystr \<Rightarrow> world \<Rightarrow> (exn + outcome) \<times> world" where
  "run_optimization E self input_file mode' goal' domain' w =
     (case validate_parameters (fs w) input_file mode' goal' domain' of
        Inl (ValueError e) \<Rightarrow>
          (Inr \<lparr>success = Some False, execution_time = Some 0, stdout = None, stderr = None,
                error = Some e, mode = Some mode', goal = Some goal', domain = Some domain',
                output_stats = None\<rparr>, w)
      | Inl e \<Rightarrow> (Inl e, w)
      | Inr _ \<Rightarrow>
          (let output_file = output_path E self input_file in
           case mkdir_exist_ok E (path_parent output_file) (fs w) of
             Inl e \<Rightarrow> (Inl e, w)
           | Inr fs1 \<Rightarrow>
               (let cmd = command self input_file output_file mode' goal' domain';
                    w1 = w\<lparr>fs := fs1\<rparr>;
                    start_time = clock w1
                in case subprocess_run E cmd w1 of
                     (Completed returncode out err, w2) \<Rightarrow>
                       (let end_time = clock w2;
                            execution_time = end_time - start_time;
                            metrics =
                              \<lparr>success = Some (returncode = 0),
                               execution_time = Some execution_time,
                               stdout = Some out, stderr = Some err, error = None,
                               mode = Some mode', goal = Some goal', domain = Some domain',
                               output_stats = None\<rparr>
                        in if returncode = 0 \<and> path_exists (fs w2) output_file
                           then (case get_file_stats E (fs w2) output_file of
                                   Inl e \<Rightarrow> (Inl e, w2)
                                 | Inr st \<Rightarrow> (Inr (metrics\<lparr>output_stats := Some st\<rparr>), w2))
                           else (Inr metrics, w2))
                   | (TimeoutExpired, w2) \<Rightarrow>
                       (Inr \<lparr>success = Some False, execution_time = Some 30, stdout = None,
                             stderr = None, error = Some (lit ''Timeout''), mode = Some mode',
                             goal = Some goal', domain = Some domain', output_stats = None\<rparr>, w2)
                   | (SpawnFailed m, w2) \<Rightarrow> (Inl (OSError m), w2))))"

section \<open>\<open>benchmark_file\<close>\<close>

definition configurations :: "(pystr \<times> pystr \<times> pystr) list" where
  "configurations =
     [(lit ''LOCAL_ONLY'', lit ''BALANCED'', lit ''software''),
      (lit ''LOCAL_ONLY'', lit ''REDUCE_TOKENS'', lit ''software''),
      (lit ''LOCAL_ONLY'', lit ''IMPROVE_ACCURACY'', lit ''software''),
      (lit ''LOCAL_ONLY'', lit ''DOMAIN_SPECIFIC'', lit ''software'')]"

text \<open>
  The two progress lines.  Code point 128202 is the bar chart sign, 128260 the arrows
  sign.
\<close>

definition benchmarking_line :: "path \<Rightarrow> pystr" where
  "benchmarking_line input_file = [128202] @ lit '' Benchmarking: '' @ path_name input_file"

definition testing_line :: "pystr \<Rightarrow> pystr \<Rightarrow> pystr \<Rightarrow> pystr" where
  "testing_line mode' goal' domain' =
     lit ''  '' @ [128260] @ lit '' Testing '' @ mode' @ lit '' + '' @ goal' @ lit '' + ''
       @ domain'"

text \<open>The loop over the configurations: \<open>acc\<close> is \<open>results["optimizations"]\<close> so far.\<close>

fun run_configurations ::
  "env \<Rightarrow> benchmark \<Rightarrow> path \<Rightarrow> (pystr \<times> pystr \<times> pystr) list \<Rightarrow> outcome list \<Rightarrow> world
     \<Rightarrow> (exn + outcome list) \<times> world" where
  "run_configurations E self input_file [] acc w = (Inr acc, w)"
| "run_configurations E self input_file ((mode', goal', domain') # cs) acc w =
     (let w1 = print (testing_line mode' goal' domain') w
      in case run_optimization E self input_file mode' goal' domain' w1 of
           (Inl e, w2) \<Rightarrow> (Inl e, w2)
         | (Inr optimization_result, w2) \<Rightarrow>
             run_configurations E self input_file cs (acc @ [optimization_result]) w2)"

definition benchmark_file ::
  "env \<Rightarrow> benchmark \<Rightarrow> path \<Rightarrow> world \<Rightarrow> (exn + file_result) \<times> world" where
  "benchmark_file E self input_file w =
     (let w1 = print (benchmarking_line input_file) w
      in case get_file_stats E (fs w1) input_file of
           Inl e \<Rightarrow> (Inl e, w1)
         | Inr stats \<Rightarrow>
             (case run_configurations E self input_file configurations [] w1 of
                (Inl e, w2) \<Rightarrow> (Inl e, w2)
              | (Inr opts, w2) \<Rightarrow>
                  (Inr \<lparr>file_path = path_str input_file, original_stats = stats,
                         optimizations = opts\<rparr>, w2)))"

section \<open>\<open>generate_report\<close>\<close>

text \<open>
  \<open>((original_size - optimized_size) / original_size) * 100\<close> on two character counts.
\<close>

definition reduction_percent :: "nat \<Rightarrow> nat \<Rightarrow> exn + rat" where
  "reduction_percent original_size optimized_size =
     bind_exn (truediv (of_int (int original_size - int optimized_size)) (of_nat original_size))
       (\<lambda>q. Inr (q * 100))"

text \<open>The conditional expression of a table row (line 226).\<close>

definition size_reduction :: "nat \<Rightarrow> nat \<Rightarrow> exn + rat" where
  "size_reduction original_size optimized_size =
     (if original_size > 0 then reduction_percent original_size optimized_size else Inr 0)"

text \<open>The three accumulators of the executive summary.\<close>

record tally =
  successful_optimizations :: nat
  total_execution_time :: rat
  size_reductions :: "rat list"

text \<open>The body of the inner loop, for one outcome of a file with statistics \<open>orig\<close>.\<close>

definition tally_outcome :: "file_stats \<Rightarrow> outcome \<Rightarrow> tally \<Rightarrow> exn + tally" where
  "tally_outcome orig opt t =
     bind_exn (getitem ''success'' (success opt)) (\<lambda>s.
       if s then
         bind_exn (getitem ''execution_time'' (execution_time opt)) (\<lambda>x.
           let t1 = t\<lparr>successful_optimizations := successful_optimizations t + 1,
                      total_execution_time := total_execution_time t + x\<rparr>
           in case output_stats opt of
                None \<Rightarrow> Inr t1
              | Some st \<Rightarrow>
                  (let original_size = chars orig; optimized_size = chars st
                   in if original_size > 0
                      then bind_exn (reduction_percent original_size optimized_size)
                             (\<lambda>reduction.
                                Inr (t1\<lparr>size_reductions := size_reductions t1 @ [reduction]\<rparr>))
                      else Inr t1))
       else Inr t)"

fun tally_outcomes :: "file_stats \<Rightarrow> outcome list \<Rightarrow> tally \<Rightarrow> exn + tally" where
  "tally_outcomes orig [] t = Inr t"
| "tally_outcomes orig (opt # opts) t =
     bind_exn (tally_outcome orig opt t) (tally_outcomes orig opts)"

fun tally_results :: "file_result list \<Rightarrow> tally \<Rightarrow> exn + tally" where
  "tally_results [] t = Inr t"
| "tally_results (result # results) t =
     bind_exn (tally_outcomes (original_stats result) (optimizations result) t)
       (tally_results results)"

text \<open>The numbers of the executive summary (lines 176 to 201), before they are formatted.\<close>

record summary =
  total_files :: nat
  successes :: nat
  avg_execution_time :: rat
  avg_size_reduction :: rat
  success_rate :: rat

definition executive_summary :: "file_result list \<Rightarrow> exn + summary" where
  "executive_summary benchmark_results =
     (let n_files = length benchmark_results in
      bind_exn (tally_results benchmark_results
                  \<lparr>successful_optimizations = 0, total_execution_time = 0,
                   size_reductions = []\<rparr>) (\<lambda>t.
      bind_exn (truediv (total_execution_time t)
                  (of_nat (max (successful_optimizations t) 1))) (\<lambda>avg_time.
      bind_exn (truediv (sum_list (size_reductions t))
                  (of_nat (max (length (size_reductions t)) 1))) (\<lambda>avg_reduction.
      bind_exn (truediv (of_nat (successful_optimizations t))
                  (of_nat (max (n_files * 4) 1))) (\<lambda>rate.
        Inr \<lparr>total_files = n_files, successes = successful_optimizations t,
              avg_execution_time = avg_time, avg_size_reduction = avg_reduction,
              success_rate = rate * 100\<rparr>)))))"

definition summary_lines_of :: "env \<Rightarrow> summary \<Rightarrow> pystr list" where
  "summary_lines_of E s =
     [lit ''- **Files processed**: '' @ str_nat (total_files s),
      lit ''- **Successful optimizations**: '' @ str_nat (successes s),
      lit ''- **Average execution time**: '' @ fmt E 3 (avg_execution_time s) @ lit ''s'',
      lit ''- **Average size reduction**: '' @ fmt E 1 (avg_size_reduction s) @ lit ''%'',
      lit ''- **Success rate**: '' @ fmt E 1 (success_rate s) @ lit ''%'' @ [10]]"

text \<open>
  One table row.  Code points 9989 and 10060 are the check mark and the cross mark.
\<close>

definition table_row :: "env \<Rightarrow> file_stats \<Rightarrow> outcome \<Rightarrow> exn + pystr" where
  "table_row E orig opt =
     bind_exn (getitem ''mode'' (mode opt)) (\<lambda>mode'.
     bind_exn (getitem ''goal'' (goal opt)) (\<lambda>goal'.
     bind_exn (getitem ''domain'' (domain opt)) (\<lambda>domain'.
     bind_exn (getitem ''success'' (success opt)) (\<lambda>s.
     bind_exn (getitem ''execution_time'' (execution_time opt)) (\<lambda>x.
     bind_exn
       (if s \<and> output_stats opt \<noteq> None
        then bind_exn (getitem ''output_stats'' (output_stats opt)) (\<lambda>st.
             bind_exn (size_reduction (chars orig) (chars st)) (\<lambda>reduction.
               Inr (fmt E 1 reduction @ lit ''%'', lit ''SUCCESS'')))
        else Inr (lit ''N/A'', (case error opt of None \<Rightarrow> lit ''FAILED'' | Some e \<Rightarrow> e)))
       (\<lambda>(size_reduction_text, status).
          Inr (lit ''| '' @ mode' @ lit '' | '' @ goal' @ lit '' | '' @ domain' @ lit '' | ''
               @ (if s then [9989] else [10060]) @ lit '' | '' @ fmt E 3 x @ lit '' | ''
               @ size_reduction_text @ lit '' | '' @ status @ lit '' |'')))))))"

fun table_rows :: "env \<Rightarrow> file_stats \<Rightarrow> outcome list \<Rightarrow> exn + pystr list" where
  "table_rows E orig [] = Inr []"
| "table_rows E orig (opt # opts) =
     bind_exn (table_row E orig opt) (\<lambda>r.
     bind_exn (table_rows E orig opts) (\<lambda>rs. Inr (r # rs)))"

definition file_section :: "env \<Rightarrow> file_result \<Rightarrow> exn + pystr list" where
  "file_section E result =
     (let file_name = name_of_str (file_path result); orig = original_stats result in
      bind_exn (table_rows E orig (optimizations result)) (\<lambda>rows.
        Inr ([lit ''### '' @ file_name @ [10],
              lit ''**Original**: '' @ str_nat (chars orig) @ lit '' chars, ''
                @ str_nat (lines orig) @ lit '' lines'' @ [10],
              lit ''| Mode | Goal | Domain | Success | Time (s) | Size Reduction | Status |'',
              lit ''|------|------|---------|---------|----------|----------------|--------|'']
             @ rows @ [[]])))"

fun file_sections :: "env \<Rightarrow> file_result list \<Rightarrow> exn + pystr list" where
  "file_sections E [] = Inr []"
| "file_sections E (result # results) =
     bind_exn (file_section E result) (\<lambda>ls.
     bind_exn (file_sections E results) (\<lambda>rest. Inr (ls @ rest)))"

text \<open>\<open>generate_report\<close> at time \<open>now\<close>.\<close>

definition generate_report :: "env \<Rightarrow> rat \<Rightarrow> file_result list \<Rightarrow> exn + pystr" where
  "generate_report E now benchmark_results =
     bind_exn (executive_summary benchmark_results) (\<lambda>s.
     bind_exn (file_sections E benchmark_results) (\<lambda>details.
       Inr (join [10]
              ([lit ''# Meta-Prompt Compiler Benchmark Report'' @ [10],
                lit ''Generated: '' @ strftime E now @ [10],
                lit ''## Executive Summary'' @ [10]]
               @ summary_lines_of E s
               @ [lit ''## Detailed Results'' @ [10]]
               @ details))))"

section \<open>\<open>run_full_benchmark\<close> and \<open>main\<close>\<close>

fun benchmark_files ::
  "env \<Rightarrow> benchmark \<Rightarrow> path list \<Rightarrow> file_result list \<Rightarrow> world
     \<Rightarrow> (exn + file_result list) \<times> world" where
  "benchmark_files E self [] results w = (Inr results, w)"
| "benchmark_files E self (example_file # files) results w =
     (case benchmark_file E self example_file w of
        (Inl e, w1) \<Rightarrow> (Inl e, w1)
      | (Inr result, w1) \<Rightarrow> benchmark_files E self files (results @ [result]) w1)"

text \<open>Code point 128640 is the rocket sign, 61 the equals sign.\<close>

definition run_full_benchmark :: "env \<Rightarrow> benchmark \<Rightarrow> world \<Rightarrow> (exn + pystr) \<times> world" where
  "run_full_benchmark E self w =
     (let w1 = print ([128640] @ lit '' Starting Meta-Prompt Compiler Benchmark'') w;
          w2 = print (replicate 50 61) w1;
          examples_dir = demo_dir self @ [lit ''examples'']
      in if \<not> path_exists (fs w2) examples_dir
         then (Inl (FileNotFoundError
                      (lit ''Examples directory not found: '' @ path_str examples_dir)), w2)
         else
           (let example_files = glob_llm (fs w2) examples_dir
            in if example_files = []
               then (Inl (FileNotFoundError
                            (lit ''No .llm files found in '' @ path_str examples_dir)), w2)
               else
                 (let w3 = print (lit ''Found '' @ str_nat (length example_files)
                                    @ lit '' example files'') w2
                  in case benchmark_files E self example_files [] w3 of
                       (Inl e, w4) \<Rightarrow> (Inl e, w4)
                     | (Inr results, w4) \<Rightarrow>
                         (case generate_report E (clock w4) results of
                            Inl e \<Rightarrow> (Inl e, w4)
                          | Inr report \<Rightarrow>
                              (let report_file = demo_dir self @ [lit ''benchmark_report.md'']
                               in case write_text E report_file report (fs w4) of
                                    Inl e \<Rightarrow> (Inl e, w4)
                                  | Inr fsys' \<Rightarrow>
                                      (Inr report,
                                       print ([10, 128202]
                                              @ lit '' Benchmark complete! Report saved to: ''
                                              @ path_str report_file)
                                         (w4\<lparr>fs := fsys'\<rparr>)))))))"

text \<open>The lines of the report that \<open>main\<close> prints: the loop of its lines 283 to 290.\<close>

fun summary_lines :: "bool \<Rightarrow> pystr list \<Rightarrow> pystr list" where
  "summary_lines in_summary [] = []"
| "summary_lines in_summary (line # ls) =
     (if startswith line (lit ''## Executive Summary'') then summary_lines True ls
      else if startswith line (lit ''##'') \<and> in_summary then []
      else if in_summary \<and> strip_nonempty line then line # summary_lines in_summary ls
      else summary_lines in_summary ls)"

text \<open>
  \<open>main\<close>: its return value, which is the exit status of the process, and the state
  afterwards.  Code point 10060 is the cross mark, 128200 the chart sign.
\<close>

definition main :: "env \<Rightarrow> path \<Rightarrow> world \<Rightarrow> int \<times> world" where
  "main E script w =
     (case init script None w of
        Inl e \<Rightarrow> (1, print ([10060] @ lit '' Benchmark failed: '' @ exn_str e) w)
      | Inr benchmark \<Rightarrow>
          (case run_full_benchmark E benchmark w of
             (Inl e, w1) \<Rightarrow> (1, print ([10060] @ lit '' Benchmark failed: '' @ exn_str e) w1)
           | (Inr report, w1) \<Rightarrow>
               (let w2 = print ([10] @ replicate 50 61) w1;
                    w3 = print ([128200] @ lit '' BENCHMARK SUMMARY'') w2;
                    w4 = print (replicate 50 61) w3
                in (0, foldl (\<lambda>w' line. print line w') w4
                         (summary_lines False (split_char 10 report))))))"

section \<open>An example run\<close>

text \<open>
  A compiler stub for the examples: it answers every call with \<open>res\<close> after half a
  second and, when \<open>written\<close> is an entry, leaves that entry at the path of its output
  argument.  The example environment has the Latin-1 table for \<open>alnum\<close> and simple
  stand-ins for the texts of errors, numbers and times.
\<close>

definition stub_execute ::
  "proc_result \<Rightarrow> node option \<Rightarrow> pystr list \<Rightarrow> filesystem \<Rightarrow> rat
     \<Rightarrow> proc_result \<times> filesystem \<times> rat" where
  "stub_execute res written cmd fsys t =
     (res,
      (case (written, drop 3 cmd) of
         (Some entry, out # _) \<Rightarrow> (split_char 47 out, entry) # fsys
       | _ \<Rightarrow> fsys),
      t + 1 / 2)"

definition example_env :: "proc_result \<Rightarrow> node option \<Rightarrow> env" where
  "example_env res written =
     \<lparr>alnum = latin1_alnum, execute = stub_execute res written,
      strerror = (\<lambda>n p. lit ''OS error''), encoded_len = length,
      fmt = (\<lambda>d x. str_nat (nat \<lfloor>x\<rfloor>)), strftime = (\<lambda>t. lit ''now'')\<rparr>"

text \<open>An output of six characters, and an output whose bytes are no text.\<close>

definition six_characters :: node where
  "six_characters = File (Inr (lit ''prompt'')) 6"

definition no_text :: node where
  "no_text = File (Inl (UnicodeDecodeError (lit ''invalid start byte''))) 6"

text \<open>
  A checkout with the script in \<open>demo\<close>, the compiler in \<open>build\<close> and the example
  \<open>demo/examples/a.llm\<close> of ten characters.
\<close>

definition example_fs :: filesystem where
  "example_fs =
     [([lit ''demo''], Dir),
      ([lit ''build'', lit ''cql''], File (Inr []) 0),
      ([lit ''demo'', lit ''examples''], Dir),
      ([lit ''demo'', lit ''examples'', lit ''a.llm''], File (Inr (lit ''0123456789'')) 10)]"

definition example_world :: "filesystem \<Rightarrow> world" where
  "example_world fsys = \<lparr>fs = fsys, clock = 0, spawned = [], printed = []\<rparr>"

definition example_self :: benchmark where
  "example_self =
     \<lparr>demo_dir = [lit ''demo''], project_root = [], build_dir = [lit ''build''],
      cql_executable = [lit ''build'', lit ''cql'']\<rparr>"

definition example_file :: path where
  "example_file = [lit ''demo'', lit ''examples'', lit ''a.llm'']"

text \<open>The path of the script, and a checkout whose examples directory is empty.\<close>

definition example_script :: path where
  "example_script = [lit ''demo'', lit ''benchmark_optimization.py'']"

definition no_examples_fs :: filesystem where
  "no_examples_fs =
     [([lit ''demo''], Dir),
      ([lit ''build'', lit ''cql''], File (Inr []) 0),
      ([lit ''demo'', lit ''examples''], Dir)]"

section \<open>The executive summary in words\<close>

text \<open>
  The descriptions that the executive summary is compared with.  First, all outcomes of
  all files in order, each with the statistics of its file.
\<close>

definition all_outcomes :: "file_result list \<Rightarrow> (file_stats \<times> outcome) list" where
  "all_outcomes results =
     concat (map (\<lambda>result. map (Pair (original_stats result)) (optimizations result)) results)"

text \<open>The percentage by which \<open>n\<close> characters are fewer than \<open>o\<close> characters.\<close>

definition percent :: "nat \<Rightarrow> nat \<Rightarrow> rat" where
  "percent o_size n_size = of_int (int o_size - int n_size) / of_nat o_size * 100"

text \<open>A mean that is guarded against the empty list.\<close>

definition mean :: "rat list \<Rightarrow> rat" where
  "mean xs = sum_list xs / of_nat (max (length xs) 1)"

text \<open>The successful outcomes and their execution times.\<close>

definition is_successful :: "file_stats \<times> outcome \<Rightarrow> bool" where
  "is_successful p = (success (snd p) = Some True)"

definition successful_outcomes :: "file_result list \<Rightarrow> (file_stats \<times> outcome) list" where
  "successful_outcomes results = filter is_successful (all_outcomes results)"

definition time_of :: "file_stats \<times> outcome \<Rightarrow> rat" where
  "time_of p = (case execution_time (snd p) of None \<Rightarrow> 0 | Some x \<Rightarrow> x)"

text \<open>
  The size reduction of an outcome with output statistics, 0 for an original of no
  characters.
\<close>

definition reduction_of :: "file_stats \<times> outcome \<Rightarrow> rat" where
  "reduction_of p =
     (case output_stats (snd p) of
        None \<Rightarrow> 0
      | Some st \<Rightarrow> if chars (fst p) = 0 then 0 else percent (chars (fst p)) (chars st))"

text \<open>
  In the words of the specification: the mean size reduction over all outcomes that
  produced output statistics.
\<close>

definition has_output_stats :: "file_stats \<times> outcome \<Rightarrow> bool" where
  "has_output_stats p = (output_stats (snd p) \<noteq> None)"

definition spec_avg_size_reduction :: "file_result list \<Rightarrow> rat" where
  "spec_avg_size_reduction results =
     mean (map reduction_of (filter has_output_stats (all_outcomes results)))"

text \<open>
  What the source counts: the successful outcomes that produced output statistics for a
  file whose original has characters.
\<close>

definition is_counted :: "file_stats \<times> outcome \<Rightarrow> bool" where
  "is_counted p = (is_successful p \<and> has_output_stats p \<and> 0 < chars (fst p))"

definition counted_outcomes :: "file_result list \<Rightarrow> (file_stats \<times> outcome) list" where
  "counted_outcomes results = filter is_counted (all_outcomes results)"

text \<open>An outcome with the keys that every dictionary of \<open>run_optimization\<close> has.\<close>

definition has_basic_keys :: "file_stats \<times> outcome \<Rightarrow> bool" where
  "has_basic_keys p = (success (snd p) \<noteq> None \<and> execution_time (snd p) \<noteq> None)"

text \<open>
  The keys of the dictionary \<open>r\<close> that a call for the configuration \<open>m\<close>, \<open>g\<close>, \<open>d\<close>
  returned, the call having taken the state from \<open>w\<close> to \<open>w'\<close>: always \<open>success\<close>,
  \<open>execution_time\<close>, \<open>mode\<close>, \<open>goal\<close> and \<open>domain\<close>; the captured \<open>stdout\<close> and \<open>stderr\<close>
  and no \<open>error\<close> when the call's subprocess completed; \<open>error\<close> and neither \<open>stdout\<close>
  nor \<open>stderr\<close> nor \<open>output_stats\<close> when the call started no subprocess or its subprocess
  timed out.
\<close>

definition outcome_shape ::
  "pystr \<Rightarrow> pystr \<Rightarrow> pystr \<Rightarrow> world \<Rightarrow> world \<Rightarrow> outcome \<Rightarrow> bool" where
  "outcome_shape m g d w w' r =
     (success r \<noteq> None \<and> execution_time r \<noteq> None
      \<and> mode r = Some m \<and> goal r = Some g \<and> domain r = Some d
      \<and> ((\<exists>cmd returncode out err.
              spawned w' = spawned w @ [(cmd, Completed returncode out err)]
              \<and> stdout r = Some out \<and> stderr r = Some err \<and> error r = None)
           \<or> ((spawned w' = spawned w \<or> (\<exists>cmd. spawned w' = spawned w @ [(cmd, TimeoutExpired)]))
               \<and> stdout r = None \<and> stderr r = None \<and> error r \<noteq> None
               \<and> output_stats r = None)))"

text \<open>
  Example results: a successful outcome whose output has \<open>n\<close> characters, and two
  files of four such outcomes each, the first file empty, the second of ten characters.
\<close>

definition example_outcome :: "nat \<Rightarrow> outcome" where
  "example_outcome n =
     \<lparr>success = Some True, execution_time = Some (1 / 2), stdout = Some [], stderr = Some [],
      error = None, mode = Some (lit ''LOCAL_ONLY''), goal = Some (lit ''BALANCED''),
      domain = Some (lit ''software''),
      output_stats = Some \<lparr>size_bytes = n, lines = 1, chars = n\<rparr>\<rparr>"

definition example_results :: "file_result list" where
  "example_results =
     [\<lparr>file_path = lit ''demo/examples/empty.llm'',
       original_stats = \<lparr>size_bytes = 0, lines = 0, chars = 0\<rparr>,
       optimizations =
         [example_outcome 6, example_outcome 6, example_outcome 6, example_outcome 6]\<rparr>,
      \<lparr>file_path = lit ''demo/examples/a.llm'',
       original_stats = \<lparr>size_bytes = 10, lines = 1, chars = 10\<rparr>,
       optimizations =
         [example_outcome 5, example_outcome 5, example_outcome 5, example_outcome 5]\<rparr>]"

section \<open>Properties of the sanitizer\<close>

lemma lit_unnamed: "lit ''unnamed'' = [117, 110, 110, 97, 109, 101, 100]"
  by (simp add: lit_def)

lemma sub_unsafe_kept:
  "c \<in> set (sub_unsafe U s) \<Longrightarrow> word_char U c \<or> c = 45 \<or> c = 95 \<or> c = 46"
  by (auto simp: sub_unsafe_def split: if_splits)

lemma sub_unsafe_fixed:
  "\<forall>c \<in> set s. word_char U c \<or> c = 45 \<or> c = 95 \<or> c = 46 \<Longrightarrow> sub_unsafe U s = s"
  by (induction s) (auto simp: sub_unsafe_def)

lemma kept_char_cases:
  "word_char U c \<or> c = 45 \<or> c = 95 \<or> c = 46 \<Longrightarrow> spec_char c \<or> (128 \<le> c \<and> U c)"
  by (auto simp: word_char_def spec_char_def split: if_splits)

lemma unnamed_kept:
  "c \<in> set (lit ''unnamed'') \<Longrightarrow> word_char U c \<or> c = 45 \<or> c = 95 \<or> c = 46"
  by (auto simp: lit_unnamed word_char_def ascii_alnum_def)

lemma sanitize_filename_kept:
  assumes "c \<in> set (sanitize_filename U s)"
  shows "word_char U c \<or> c = 45 \<or> c = 95 \<or> c = 46"
proof (cases "lstrip_dot (sub_unsafe U s) = []")
  case True
  with assms have "c \<in> set (lit ''unnamed'')"
    by (auto simp: sanitize_filename_def Let_def dest: in_set_takeD)
  then show ?thesis by (rule unnamed_kept)
next
  case False
  with assms have "c \<in> set (lstrip_dot (sub_unsafe U s))"
    by (auto simp: sanitize_filename_def Let_def dest: in_set_takeD)
  then have "c \<in> set (sub_unsafe U s)"
    by (auto simp: lstrip_dot_def dest: set_dropWhileD)
  then show ?thesis by (rule sub_unsafe_kept)
qed

lemma sanitize_filename_length: "length (sanitize_filename U s) \<le> 50"
  by (simp add: sanitize_filename_def Let_def)

lemma sanitize_filename_nonempty: "sanitize_filename U s \<noteq> []"
  by (simp add: sanitize_filename_def Let_def lit_unnamed)

lemma lstrip_dot_no_dot: "\<not> starts_with_dot (lstrip_dot s)"
  by (induction s) (auto simp: lstrip_dot_def starts_with_dot_def)

lemma starts_with_dot_take: "0 < n \<Longrightarrow> starts_with_dot (take n s) = starts_with_dot s"
  by (cases s; cases n) (auto simp: starts_with_dot_def)

lemma sanitize_filename_no_dot: "\<not> starts_with_dot (sanitize_filename U s)"
proof (cases "lstrip_dot (sub_unsafe U s) = []")
  case True
  then show ?thesis
    by (simp add: sanitize_filename_def Let_def lit_unnamed starts_with_dot_def)
next
  case False
  then show ?thesis
    by (simp add: sanitize_filename_def Let_def starts_with_dot_take lstrip_dot_no_dot)
qed

lemma lstrip_dot_fixed: "\<not> starts_with_dot s \<Longrightarrow> lstrip_dot s = s"
  by (cases s) (auto simp: lstrip_dot_def starts_with_dot_def)

text \<open>
  C1 (as stated, refuted): the result is claimed to contain only characters of
  \<open>[A-Za-z0-9_.-]\<close>.  The class \<open>\w\<close> also keeps the non-ASCII alphanumerics: the one
  character string U+00E9 (e with acute accent) is returned unchanged.
\<close>

theorem sanitize_filename_ascii_counterexample:
  "sanitize_filename latin1_alnum [233] = [233] \<and> \<not> list_all spec_char (sanitize_filename latin1_alnum [233])"
  by (simp add: sanitize_filename_def sub_unsafe_def lstrip_dot_def word_char_def
      latin1_alnum_def spec_char_def ascii_alnum_def)

text \<open>
  C1 (amended): for every input string, every character of the sanitizer's result is in
  \<open>[A-Za-z0-9_.-]\<close> or is a non-ASCII alphanumeric of the Unicode database; the result
  has at most 50 characters, does not start with a full stop and is not empty.
\<close>

theorem sanitize_filename_shape:
  "(\<forall>c \<in> set (sanitize_filename U s). spec_char c \<or> (128 \<le> c \<and> U c))
   \<and> length (sanitize_filename U s) \<le> 50
   \<and> \<not> starts_with_dot (sanitize_filename U s)
   \<and> sanitize_filename U s \<noteq> []"
  using sanitize_filename_kept [of _ U s] kept_char_cases [of U]
    sanitize_filename_length [of U s] sanitize_filename_no_dot [of U s]
    sanitize_filename_nonempty [of U s]
  by blast

text \<open>The input \<open>../\<close>, U+00E9, space, \<open>b\<close> is sanitized to \<open>_\<close>, U+00E9, \<open>_b\<close>.\<close>

theorem sanitize_filename_shape_witness:
  "sanitize_filename latin1_alnum [46, 46, 47, 233, 32, 98] = [95, 233, 95, 98]
   \<and> list_all (\<lambda>c. spec_char c \<or> (128 \<le> c \<and> latin1_alnum c))
         (sanitize_filename latin1_alnum [46, 46, 47, 233, 32, 98])
   \<and> length (sanitize_filename latin1_alnum [46, 46, 47, 233, 32, 98]) \<le> 50
   \<and> \<not> starts_with_dot (sanitize_filename latin1_alnum [46, 46, 47, 233, 32, 98])
   \<and> sanitize_filename latin1_alnum [46, 46, 47, 233, 32, 98] \<noteq> []"
  using sanitize_filename_shape [of latin1_alnum "[46, 46, 47, 233, 32, 98]"]
  by (simp add: sanitize_filename_def sub_unsafe_def lstrip_dot_def word_char_def
      latin1_alnum_def ascii_alnum_def list_all_iff)

text \<open>
  C2: the sanitizer is idempotent: sanitizing a sanitized name returns it unchanged, for
  every input string.
\<close>

theorem sanitize_filename_idempotent:
  "sanitize_filename U (sanitize_filename U s) = sanitize_filename U s"
proof -
  let ?t = "sanitize_filename U s"
  have "sub_unsafe U ?t = ?t"
    by (rule sub_unsafe_fixed) (blast dest: sanitize_filename_kept)
  moreover have "lstrip_dot ?t = ?t"
    by (rule lstrip_dot_fixed) (rule sanitize_filename_no_dot)
  moreover have "?t \<noteq> []"
    by (rule sanitize_filename_nonempty)
  moreover have "take 50 ?t = ?t"
    by (simp add: sanitize_filename_length)
  ultimately show ?thesis
    by (simp add: sanitize_filename_def [of U ?t] Let_def)
qed

section \<open>Properties of \<open>run_optimization\<close>\<close>

lemmas example_defs =
  run_optimization_def validate_parameters_def path_exists_def is_file_def valid_modes_def
  valid_goals_def domain_matches_def ascii_alnum_def output_path_def sanitize_filename_def
  sub_unsafe_def lstrip_dot_def word_char_def latin1_alnum_def path_stem_def path_name_def
  rfind_dot_def path_parent_def mkdir_exist_ok_def command_def subprocess_run_def
  get_file_stats_def line_boundary_def path_str_def lit_def Let_def example_env_def
  stub_execute_def six_characters_def no_text_def
  example_fs_def example_world_def example_self_def example_file_def

lemma validate_parameters_raises:
  "validate_parameters fsys f m g d = Inl e \<Longrightarrow> \<exists>msg. e = ValueError msg"
  by (auto simp: validate_parameters_def split: if_splits)

lemma validate_parameters_ok_iff:
  "validate_parameters fsys f m g d = Inr u \<longleftrightarrow>
     path_exists fsys f \<and> is_file fsys f \<and> m \<in> set valid_modes \<and> g \<in> set valid_goals
     \<and> domain_matches d \<and> length d \<le> 64"
  by (auto simp: validate_parameters_def)

text \<open>A call starts at most one subprocess, with the command of the source.\<close>

lemma run_optimization_spawned:
  assumes "run_optimization E self f m g d w = (res, w')"
  shows "spawned w' = spawned w
       \<or> (\<exists>p. spawned w' = spawned w @ [(command self f (output_path E self f) m g d, p)])"
  using assms
  by (auto simp: run_optimization_def Let_def subprocess_run_def
      split: sum.splits exn.splits prod.splits proc_result.splits if_splits)

text \<open>
  C4: whenever the subprocess of a call exceeds the timeout (\<open>subprocess.run\<close> raises
  \<open>TimeoutExpired\<close>), the call returns an outcome with \<open>success\<close> false, \<open>error\<close> equal to
  \<open>Timeout\<close> and \<open>execution_time\<close> equal to 30.
\<close>

theorem timeout_outcome:
  assumes "run_optimization E self f m g d w = (res, w')"
      and "spawned w' = spawned w @ [(cmd, TimeoutExpired)]"
  shows "\<exists>r. res = Inr r \<and> success r = Some False \<and> error r = Some (lit ''Timeout'')
           \<and> execution_time r = Some 30"
  using assms
  by (auto simp: run_optimization_def Let_def subprocess_run_def
      split: sum.splits exn.splits prod.splits proc_result.splits if_splits)

text \<open>The stub that always times out, on the example file.\<close>

theorem timeout_outcome_witness:
  "spawned (snd (run_optimization (example_env TimeoutExpired None) example_self example_file
       (lit ''LOCAL_ONLY'') (lit ''BALANCED'') (lit ''software'') (example_world example_fs)))
     = spawned (example_world example_fs)
       @ [(command example_self example_file
             (output_path (example_env TimeoutExpired None) example_self example_file)
             (lit ''LOCAL_ONLY'') (lit ''BALANCED'') (lit ''software''), TimeoutExpired)]
   \<and> (\<exists>r. fst (run_optimization (example_env TimeoutExpired None) example_self example_file
              (lit ''LOCAL_ONLY'') (lit ''BALANCED'') (lit ''software'')
              (example_world example_fs)) = Inr r
          \<and> success r = Some False \<and> error r = Some (lit ''Timeout'')
          \<and> execution_time r = Some 30)"
proof -
  let ?E = "example_env TimeoutExpired None"
  let ?X = "run_optimization ?E example_self example_file
              (lit ''LOCAL_ONLY'') (lit ''BALANCED'') (lit ''software'') (example_world example_fs)"
  have run: "?X = (fst ?X, snd ?X)"
    by simp
  have log: "spawned (snd ?X) = spawned (example_world example_fs)
       @ [(command example_self example_file (output_path ?E example_self example_file)
             (lit ''LOCAL_ONLY'') (lit ''BALANCED'') (lit ''software''), TimeoutExpired)]"
    by (simp add: example_defs)
  from timeout_outcome [OF run log] log show ?thesis
    by simp
qed

text \<open>
  C5: when the validation of the parameters fails (the input path is missing or is not
  a regular file, the mode or the goal is not in its list, or the domain is rejected),
  \<open>run_optimization\<close> returns an outcome with \<open>success\<close> false, \<open>execution_time\<close> 0 and
  \<open>error\<close> equal to the message of the validation, and leaves the state as it was: no
  subprocess is started.
\<close>

theorem validation_failure_outcome:
  assumes "\<not> (path_exists (fs w) f \<and> is_file (fs w) f \<and> m \<in> set valid_modes
              \<and> g \<in> set valid_goals \<and> domain_matches d \<and> length d \<le> 64)"
  shows "\<exists>msg. validate_parameters (fs w) f m g d = Inl (ValueError msg)
           \<and> run_optimization E self f m g d w =
               (Inr \<lparr>success = Some False, execution_time = Some 0, stdout = None,
                     stderr = None, error = Some msg, mode = Some m, goal = Some g,
                     domain = Some d, output_stats = None\<rparr>, w)"
proof -
  from assms have "validate_parameters (fs w) f m g d \<noteq> Inr ()"
    by (simp add: validate_parameters_ok_iff)
  then obtain e where "validate_parameters (fs w) f m g d = Inl e"
    by (cases "validate_parameters (fs w) f m g d") auto
  then obtain msg where "validate_parameters (fs w) f m g d = Inl (ValueError msg)"
    by (auto dest: validate_parameters_raises)
  then show ?thesis
    by (simp add: run_optimization_def)
qed

text \<open>The mode \<open>TURBO\<close> is not in the list.\<close>

theorem validation_failure_outcome_witness:
  "lit ''TURBO'' \<notin> set valid_modes
   \<and> (\<exists>msg. validate_parameters example_fs example_file (lit ''TURBO'') (lit ''BALANCED'')
               (lit ''software'') = Inl (ValueError msg)
          \<and> run_optimization (example_env TimeoutExpired None) example_self example_file
               (lit ''TURBO'') (lit ''BALANCED'') (lit ''software'') (example_world example_fs) =
               (Inr \<lparr>success = Some False, execution_time = Some 0, stdout = None,
                     stderr = None, error = Some msg, mode = Some (lit ''TURBO''),
                     goal = Some (lit ''BALANCED''), domain = Some (lit ''software''),
                     output_stats = None\<rparr>, example_world example_fs))"
proof -
  have bad: "lit ''TURBO'' \<notin> set valid_modes"
    by (simp add: valid_modes_def lit_def)
  then have "\<not> (path_exists (fs (example_world example_fs)) example_file
        \<and> is_file (fs (example_world example_fs)) example_file
        \<and> lit ''TURBO'' \<in> set valid_modes \<and> lit ''BALANCED'' \<in> set valid_goals
        \<and> domain_matches (lit ''software'') \<and> length (lit ''software'') \<le> 64)"
    by simp
  from validation_failure_outcome [OF this] bad show ?thesis
    by (simp add: example_world_def)
qed




text \<open>
  C10: the output path of a call depends on the input file through its stem only, and
  not on the configuration: any two calls that start a subprocess for input files of
  the same stem pass the same output path (the fourth argument of the command).
\<close>

theorem shared_output_file:
  assumes "run_optimization E self f1 m1 g1 d1 w1 = (res1, w1')"
      and "spawned w1' = spawned w1 @ [(cmd1, p1)]"
      and "run_optimization E self f2 m2 g2 d2 w2 = (res2, w2')"
      and "spawned w2' = spawned w2 @ [(cmd2, p2)]"
      and "path_stem f1 = path_stem f2"
  shows "cmd1 ! 3 = path_str (output_path E self f1) \<and> cmd2 ! 3 = cmd1 ! 3"
proof -
  from run_optimization_spawned [OF assms(1)] assms(2)
  have 1: "cmd1 = command self f1 (output_path E self f1) m1 g1 d1"
    by auto
  from run_optimization_spawned [OF assms(3)] assms(4)
  have 2: "cmd2 = command self f2 (output_path E self f2) m2 g2 d2"
    by auto
  have "output_path E self f1 = output_path E self f2"
    using assms(5) by (simp add: output_path_def)
  with 1 2 show ?thesis
    by (simp add: command_def)
qed

text \<open>Two configurations of the example file, with the stub that times out.\<close>

theorem shared_output_file_witness:
  "path_stem example_file = path_stem example_file
   \<and> command example_self example_file
        (output_path (example_env TimeoutExpired None) example_self example_file)
        (lit ''LOCAL_ONLY'') (lit ''BALANCED'') (lit ''software'') ! 3
      = lit ''demo/temp/optimized_a.txt''
   \<and> command example_self example_file
        (output_path (example_env TimeoutExpired None) example_self example_file)
        (lit ''LOCAL_ONLY'') (lit ''REDUCE_TOKENS'') (lit ''software'') ! 3
      = lit ''demo/temp/optimized_a.txt''"
proof -
  let ?E = "example_env TimeoutExpired None"
  let ?c1 = "command example_self example_file (output_path ?E example_self example_file)
               (lit ''LOCAL_ONLY'') (lit ''BALANCED'') (lit ''software'')"
  let ?c2 = "command example_self example_file (output_path ?E example_self example_file)
               (lit ''LOCAL_ONLY'') (lit ''REDUCE_TOKENS'') (lit ''software'')"
  let ?X = "run_optimization ?E example_self example_file
              (lit ''LOCAL_ONLY'') (lit ''BALANCED'') (lit ''software'') (example_world example_fs)"
  let ?Y = "run_optimization ?E example_self example_file
              (lit ''LOCAL_ONLY'') (lit ''REDUCE_TOKENS'') (lit ''software'') (snd ?X)"
  have run1: "?X = (fst ?X, snd ?X)"
    by simp
  have log1: "spawned (snd ?X) = spawned (example_world example_fs) @ [(?c1, TimeoutExpired)]"
    by (simp add: example_defs)
  have run2: "?Y = (fst ?Y, snd ?Y)"
    by simp
  have log2: "spawned (snd ?Y) = spawned (snd ?X) @ [(?c2, TimeoutExpired)]"
    by (simp add: example_defs)
  have "?c1 ! 3 = lit ''demo/temp/optimized_a.txt''"
    by (simp add: example_defs)
  with shared_output_file [OF run1 log1 run2 log2 refl] show ?thesis
    by simp
qed

text \<open>
  An outcome returned has the keys \<open>success\<close>, \<open>execution_time\<close>, \<open>mode\<close>, \<open>goal\<close> and
  \<open>domain\<close>.  After a completed subprocess it has \<open>stdout\<close> and \<open>stderr\<close> and no \<open>error\<close>;
  after a failed validation or a timeout it has \<open>error\<close> and neither \<open>stdout\<close> nor
  \<open>stderr\<close> nor \<open>output_stats\<close>.
\<close>

lemma run_optimization_shape:
  assumes "run_optimization E self f m g d w = (Inr r, w')"
  shows "success r \<noteq> None \<and> execution_time r \<noteq> None
       \<and> mode r = Some m \<and> goal r = Some g \<and> domain r = Some d
       \<and> ((\<exists>cmd returncode out err.
               spawned w' = spawned w @ [(cmd, Completed returncode out err)]
               \<and> stdout r = Some out \<and> stderr r = Some err \<and> error r = None)
            \<or> ((spawned w' = spawned w \<or> (\<exists>cmd. spawned w' = spawned w @ [(cmd, TimeoutExpired)]))
                \<and> stdout r = None \<and> stderr r = None \<and> error r \<noteq> None
                \<and> output_stats r = None))"
  using assms
  by (auto simp: run_optimization_def Let_def subprocess_run_def
      split: sum.splits exn.splits prod.splits proc_result.splits if_splits)

section \<open>Properties of \<open>benchmark_file\<close>\<close>

text \<open>
  The loop appends, for each configuration in order, the outcome its call of
  \<open>run_optimization\<close> returned.
\<close>

lemma run_configurations_recorded:
  assumes "run_configurations E self f cs acc w = (Inr rs, w')"
  shows "\<exists>new. rs = acc @ new
           \<and> list_all2 (\<lambda>(m, g, d) r. \<exists>w1 w2. run_optimization E self f m g d w1 = (Inr r, w2))
               cs new"
  using assms
proof (induction cs arbitrary: acc w)
  case Nil
  then show ?case by simp
next
  case (Cons c cs)
  obtain m g d where c: "c = (m, g, d)"
    by (cases c) auto
  let ?w1 = "print (testing_line m g d) w"
  from Cons.prems c obtain r w2
    where run: "run_optimization E self f m g d ?w1 = (Inr r, w2)"
      and rest: "run_configurations E self f cs (acc @ [r]) w2 = (Inr rs, w')"
    by (auto simp: Let_def split: prod.splits sum.splits)
  from Cons.IH [OF rest] obtain new
    where new: "rs = (acc @ [r]) @ new"
      and all: "list_all2 (\<lambda>(m, g, d) r. \<exists>w1 w2. run_optimization E self f m g d w1 = (Inr r, w2))
                  cs new"
    by blast
  from run have "\<exists>w1 w2. run_optimization E self f m g d w1 = (Inr r, w2)"
    by blast
  with new all c have "rs = acc @ (r # new)
      \<and> list_all2 (\<lambda>(m, g, d) r. \<exists>w1 w2. run_optimization E self f m g d w1 = (Inr r, w2))
          (c # cs) (r # new)"
    by simp
  then show ?case by blast
qed

lemma benchmark_file_recorded:
  assumes "benchmark_file E self f w = (Inr result, w')"
  shows "list_all2 (\<lambda>(m, g, d) r. \<exists>w1 w2. run_optimization E self f m g d w1 = (Inr r, w2))
           configurations (optimizations result)"
proof -
  from assms obtain w1 opts
    where "run_configurations E self f configurations [] w1 = (Inr opts, w')"
      and "optimizations result = opts"
    by (auto simp: benchmark_file_def Let_def split: sum.splits prod.splits)
  with run_configurations_recorded [of E self f configurations "[]" w1 opts w']
  show ?thesis
    by auto
qed

text \<open>
  C8 (as stated, refuted): every outcome is claimed to contain a \<open>stdout\<close> and a
  \<open>stderr\<close> string.  The dictionary returned for a missing input file has neither key.
\<close>

theorem outcome_without_stdout_counterexample:
  "run_optimization (example_env TimeoutExpired None) example_self [lit ''missing.llm'']
     (lit ''LOCAL_ONLY'') (lit ''BALANCED'') (lit ''software'') (example_world example_fs)
   = (Inr \<lparr>success = Some False, execution_time = Some 0, stdout = None, stderr = None,
           error = Some (lit ''Input file does not exist: missing.llm''),
           mode = Some (lit ''LOCAL_ONLY''), goal = Some (lit ''BALANCED''),
           domain = Some (lit ''software''), output_stats = None\<rparr>,
      example_world example_fs)"
  by (simp add: example_defs)

text \<open>
  C8 (amended): the outcomes that \<open>benchmark_file\<close> records are exactly the dictionaries
  that its four calls of \<open>run_optimization\<close> returned, unchanged and in the order of the
  configurations, each call starting in the state the previous one left (after the
  progress line is printed) and the last one leaving the final state.  Each recorded
  outcome contains \<open>success\<close>, \<open>execution_time\<close>, \<open>mode\<close>, \<open>goal\<close> and \<open>domain\<close>; it
  contains the captured \<open>stdout\<close> and \<open>stderr\<close> (and no \<open>error\<close>) when the subprocess of
  its call completed, and \<open>error\<close> but neither \<open>stdout\<close> nor \<open>stderr\<close> nor \<open>output_stats\<close>
  when its call failed the validation or its subprocess timed out.
\<close>

lemma run_optimization_outcome_shape:
  "run_optimization E self f m g d w = (Inr r, w') \<Longrightarrow> outcome_shape m g d w w' r"
  unfolding outcome_shape_def by (rule run_optimization_shape)

theorem recorded_outcomes_shape:
  assumes "benchmark_file E self f w = (Inr result, w')"
  shows "\<exists>r1 w1 r2 w2 r3 w3 r4.
           run_optimization E self f (lit ''LOCAL_ONLY'') (lit ''BALANCED'') (lit ''software'')
               (print (testing_line (lit ''LOCAL_ONLY'') (lit ''BALANCED'') (lit ''software''))
                  (print (benchmarking_line f) w))
             = (Inr r1, w1)
           \<and> run_optimization E self f (lit ''LOCAL_ONLY'') (lit ''REDUCE_TOKENS'')
               (lit ''software'')
               (print (testing_line (lit ''LOCAL_ONLY'') (lit ''REDUCE_TOKENS'')
                         (lit ''software'')) w1)
             = (Inr r2, w2)
           \<and> run_optimization E self f (lit ''LOCAL_ONLY'') (lit ''IMPROVE_ACCURACY'')
               (lit ''software'')
               (print (testing_line (lit ''LOCAL_ONLY'') (lit ''IMPROVE_ACCURACY'')
                         (lit ''software'')) w2)
             = (Inr r3, w3)
           \<and> run_optimization E self f (lit ''LOCAL_ONLY'') (lit ''DOMAIN_SPECIFIC'')
               (lit ''software'')
               (print (testing_line (lit ''LOCAL_ONLY'') (lit ''DOMAIN_SPECIFIC'')
                         (lit ''software'')) w3)
             = (Inr r4, w')
           \<and> optimizations result = [r1, r2, r3, r4]
           \<and> outcome_shape (lit ''LOCAL_ONLY'') (lit ''BALANCED'') (lit ''software'')
               (print (testing_line (lit ''LOCAL_ONLY'') (lit ''BALANCED'') (lit ''software''))
                  (print (benchmarking_line f) w)) w1 r1
           \<and> outcome_shape (lit ''LOCAL_ONLY'') (lit ''REDUCE_TOKENS'') (lit ''software'')
               (print (testing_line (lit ''LOCAL_ONLY'') (lit ''REDUCE_TOKENS'')
                         (lit ''software'')) w1) w2 r2
           \<and> outcome_shape (lit ''LOCAL_ONLY'') (lit ''IMPROVE_ACCURACY'') (lit ''software'')
               (print (testing_line (lit ''LOCAL_ONLY'') (lit ''IMPROVE_ACCURACY'')
                         (lit ''software'')) w2) w3 r3
           \<and> outcome_shape (lit ''LOCAL_ONLY'') (lit ''DOMAIN_SPECIFIC'') (lit ''software'')
               (print (testing_line (lit ''LOCAL_ONLY'') (lit ''DOMAIN_SPECIFIC'')
                         (lit ''software'')) w3) w' r4"
proof -
  let ?w0 = "print (benchmarking_line f) w"
  from assms obtain opts
    where loop: "run_configurations E self f configurations [] ?w0 = (Inr opts, w')"
      and opts: "optimizations result = opts"
    by (auto simp: benchmark_file_def Let_def split: sum.splits prod.splits)
  from loop obtain r1 w1
    where c1: "run_optimization E self f (lit ''LOCAL_ONLY'') (lit ''BALANCED'') (lit ''software'')
               (print (testing_line (lit ''LOCAL_ONLY'') (lit ''BALANCED'') (lit ''software''))
                  ?w0) = (Inr r1, w1)"
      and l1: "run_configurations E self f (tl configurations) [r1] w1 = (Inr opts, w')"
    by (auto simp: configurations_def Let_def split: sum.splits prod.splits)
  from l1 obtain r2 w2
    where c2: "run_optimization E self f (lit ''LOCAL_ONLY'') (lit ''REDUCE_TOKENS'')
               (lit ''software'')
               (print (testing_line (lit ''LOCAL_ONLY'') (lit ''REDUCE_TOKENS'')
                         (lit ''software'')) w1) = (Inr r2, w2)"
      and l2: "run_configurations E self f (tl (tl configurations)) [r1, r2] w2 = (Inr opts, w')"
    by (auto simp: configurations_def Let_def split: sum.splits prod.splits)
  from l2 obtain r3 w3
    where c3: "run_optimization E self f (lit ''LOCAL_ONLY'') (lit ''IMPROVE_ACCURACY'')
               (lit ''software'')
               (print (testing_line (lit ''LOCAL_ONLY'') (lit ''IMPROVE_ACCURACY'')
                         (lit ''software'')) w2) = (Inr r3, w3)"
      and l3: "run_configurations E self f (tl (tl (tl configurations))) [r1, r2, r3] w3
                 = (Inr opts, w')"
    by (auto simp: configurations_def Let_def split: sum.splits prod.splits)
  from l3 obtain r4
    where c4: "run_optimization E self f (lit ''LOCAL_ONLY'') (lit ''DOMAIN_SPECIFIC'')
               (lit ''software'')
               (print (testing_line (lit ''LOCAL_ONLY'') (lit ''DOMAIN_SPECIFIC'')
                         (lit ''software'')) w3) = (Inr r4, w')"
      and l4: "opts = [r1, r2, r3, r4]"
    by (auto simp: configurations_def Let_def split: sum.splits prod.splits)
  note shapes = run_optimization_outcome_shape [OF c1] run_optimization_outcome_shape [OF c2]
    run_optimization_outcome_shape [OF c3] run_optimization_outcome_shape [OF c4]
  from c1 c2 c3 c4 opts l4 shapes show ?thesis
    by blast
qed

text \<open>
  The example file under the stub that exits with 0 and writes six characters: four
  successful outcomes are recorded.
\<close>

theorem recorded_outcomes_shape_witness:
  "\<exists>result w'.
     benchmark_file (example_env (Completed 0 (lit ''done'') []) (Some six_characters))
       example_self example_file (example_world example_fs) = (Inr result, w')
     \<and> map success (optimizations result) = [Some True, Some True, Some True, Some True]
     \<and> (\<exists>r1 w1 r2 w2 r3 w3 r4.
           run_optimization (example_env (Completed 0 (lit ''done'') []) (Some six_characters)) example_self example_file (lit ''LOCAL_ONLY'') (lit ''BALANCED'') (lit ''software'')
               (print (testing_line (lit ''LOCAL_ONLY'') (lit ''BALANCED'') (lit ''software''))
                  (print (benchmarking_line example_file) (example_world example_fs)))
             = (Inr r1, w1)
           \<and> run_optimization (example_env (Completed 0 (lit ''done'') []) (Some six_characters)) example_self example_file (lit ''LOCAL_ONLY'') (lit ''REDUCE_TOKENS'')
               (lit ''software'')
               (print (testing_line (lit ''LOCAL_ONLY'') (lit ''REDUCE_TOKENS'')
                         (lit ''software'')) w1)
             = (Inr r2, w2)
           \<and> run_optimization (example_env (Completed 0 (lit ''done'') []) (Some six_characters)) example_self example_file (lit ''LOCAL_ONLY'') (lit ''IMPROVE_ACCURACY'')
               (lit ''software'')
               (print (testing_line (lit ''LOCAL_ONLY'') (lit ''IMPROVE_ACCURACY'')
                         (lit ''software'')) w2)
             = (Inr r3, w3)
           \<and> run_optimization (example_env (Completed 0 (lit ''done'') []) (Some six_characters)) example_self example_file (lit ''LOCAL_ONLY'') (lit ''DOMAIN_SPECIFIC'')
               (lit ''software'')
               (print (testing_line (lit ''LOCAL_ONLY'') (lit ''DOMAIN_SPECIFIC'')
                         (lit ''software'')) w3)
             = (Inr r4, w')
           \<and> optimizations result = [r1, r2, r3, r4]
           \<and> outcome_shape (lit ''LOCAL_ONLY'') (lit ''BALANCED'') (lit ''software'')
               (print (testing_line (lit ''LOCAL_ONLY'') (lit ''BALANCED'') (lit ''software''))
                  (print (benchmarking_line example_file) (example_world example_fs))) w1 r1
           \<and> outcome_shape (lit ''LOCAL_ONLY'') (lit ''REDUCE_TOKENS'') (lit ''software'')
               (print (testing_line (lit ''LOCAL_ONLY'') (lit ''REDUCE_TOKENS'')
                         (lit ''software'')) w1) w2 r2
           \<and> outcome_shape (lit ''LOCAL_ONLY'') (lit ''IMPROVE_ACCURACY'') (lit ''software'')
               (print (testing_line (lit ''LOCAL_ONLY'') (lit ''IMPROVE_ACCURACY'')
                         (lit ''software'')) w2) w3 r3
           \<and> outcome_shape (lit ''LOCAL_ONLY'') (lit ''DOMAIN_SPECIFIC'') (lit ''software'')
               (print (testing_line (lit ''LOCAL_ONLY'') (lit ''DOMAIN_SPECIFIC'')
                         (lit ''software'')) w3) w' r4)"
proof -
  let ?E = "example_env (Completed 0 (lit ''done'') []) (Some six_characters)"
  let ?X = "benchmark_file ?E example_self example_file (example_world example_fs)"
  have "\<not> isl (fst ?X)"
    by (simp add: benchmark_file_def configurations_def print_def example_defs)
  then obtain result where res: "fst ?X = Inr result"
    by (cases "fst ?X") auto
  then have run: "?X = (Inr result, snd ?X)"
    by (metis prod.collapse)
  have "map success (case fst ?X of Inr r \<Rightarrow> optimizations r)
      = [Some True, Some True, Some True, Some True]"
    by (simp add: benchmark_file_def configurations_def print_def example_defs)
  with res have all: "map success (optimizations result)
      = [Some True, Some True, Some True, Some True]"
    by simp
  note chain = recorded_outcomes_shape [OF run]
  show ?thesis
    by (rule exI [of _ result], rule exI [of _ "snd ?X"]) (intro conjI run all chain)
qed

section \<open>Properties of \<open>generate_report\<close>\<close>

lemma reduction_percent_eq:
  "0 < o_size \<Longrightarrow> reduction_percent o_size n_size = Inr (percent o_size n_size)"
  by (simp add: reduction_percent_def truediv_def bind_exn_def percent_def)

text \<open>
  C3: in the table row of a successful outcome with output statistics, for a file of
  \<open>o\<close> original characters and an output of \<open>n\<close> characters, the size reduction
  shown is \<open>(o - n) / o * 100\<close> when \<open>o > 0\<close> and 0 when \<open>o = 0\<close>, for every \<open>n\<close>; the
  row is produced without a fault, and no table row at all raises
  \<open>ZeroDivisionError\<close>.  (Numbers are rationals here: the rounding of floating point
  arithmetic is not modelled.)
\<close>

theorem size_reduction_guarded:
  assumes "mode opt = Some m" and "goal opt = Some g" and "domain opt = Some d"
      and "success opt = Some True" and "execution_time opt = Some x"
      and "output_stats opt = Some st"
  shows "table_row E orig opt =
           Inr (lit ''| '' @ m @ lit '' | '' @ g @ lit '' | '' @ d @ lit '' | '' @ [9989]
                @ lit '' | '' @ fmt E 3 x @ lit '' | ''
                @ (fmt E 1 (if 0 < chars orig
                            then of_int (int (chars orig) - int (chars st))
                                   / of_nat (chars orig) * 100
                            else 0)
                   @ lit ''%'')
                @ lit '' | '' @ lit ''SUCCESS'' @ lit '' |'')
       \<and> (\<forall>opt' msg. table_row E orig opt' \<noteq> Inl (ZeroDivisionError msg))"
proof -
  have red: "size_reduction (chars orig) k
      = Inr (if 0 < chars orig
             then of_int (int (chars orig) - int k) / of_nat (chars orig) * 100 else 0)" for k
    by (simp add: size_reduction_def reduction_percent_eq percent_def)
  have row: "table_row E orig opt =
           Inr (lit ''| '' @ m @ lit '' | '' @ g @ lit '' | '' @ d @ lit '' | '' @ [9989]
                @ lit '' | '' @ fmt E 3 x @ lit '' | ''
                @ (fmt E 1 (if 0 < chars orig
                            then of_int (int (chars orig) - int (chars st))
                                   / of_nat (chars orig) * 100
                            else 0)
                   @ lit ''%'')
                @ lit '' | '' @ lit ''SUCCESS'' @ lit '' |'')"
    using assms by (simp add: table_row_def bind_exn_def getitem_def red)
  have "table_row E orig opt' \<noteq> Inl (ZeroDivisionError msg)" for opt' msg
    by (auto simp: table_row_def bind_exn_def getitem_def red
        split: option.splits sum.splits prod.splits if_splits)
  with row show ?thesis
    by blast
qed

text \<open>
  The row of an outcome of six characters for an original of ten characters shows 40;
  the number formats of the example environment drop the decimals.
\<close>

theorem size_reduction_guarded_witness:
  "success (example_outcome 6) = Some True
   \<and> output_stats (example_outcome 6) = Some \<lparr>size_bytes = 6, lines = 1, chars = 6\<rparr>
   \<and> table_row (example_env TimeoutExpired None) \<lparr>size_bytes = 10, lines = 1, chars = 10\<rparr>
        (example_outcome 6)
      = Inr (lit ''| LOCAL_ONLY | BALANCED | software | '' @ [9989]
             @ lit '' | 0 | 40% | SUCCESS |'')"
proof -
  let ?E = "example_env TimeoutExpired None"
  have f3: "fmt ?E k (1 / 2) = lit ''0''" for k
    by (simp add: example_env_def str_nat.simps lit_def)
  have f1: "fmt ?E k 40 = lit ''40''" for k
    by (simp add: example_env_def str_nat.simps lit_def)
  from size_reduction_guarded [of "example_outcome 6" "lit ''LOCAL_ONLY''" "lit ''BALANCED''"
      "lit ''software''" "1 / 2" "\<lparr>size_bytes = 6, lines = 1, chars = 6\<rparr>" ?E
      "\<lparr>size_bytes = 10, lines = 1, chars = 10\<rparr>"]
  have "table_row ?E \<lparr>size_bytes = 10, lines = 1, chars = 10\<rparr> (example_outcome 6)
      = Inr (lit ''| LOCAL_ONLY | BALANCED | software | '' @ [9989]
             @ lit '' | 0 | 40% | SUCCESS |'')"
    by (simp add: example_outcome_def f3 f1) (simp add: lit_def)
  then show ?thesis
    by (simp add: example_outcome_def)
qed

text \<open>The loops of the executive summary, outcome by outcome.\<close>

lemma tally_outcome_eq:
  assumes "has_basic_keys (orig, opt)"
  shows "tally_outcome orig opt t =
     Inr (t\<lparr>successful_optimizations :=
               successful_optimizations t + length (filter is_successful [(orig, opt)]),
             total_execution_time :=
               total_execution_time t + sum_list (map time_of (filter is_successful [(orig, opt)])),
             size_reductions :=
               size_reductions t @ map reduction_of (filter is_counted [(orig, opt)])\<rparr>)"
  using assms
  by (cases "output_stats opt")
    (auto simp: tally_outcome_def has_basic_keys_def is_successful_def is_counted_def
      has_output_stats_def time_of_def reduction_of_def getitem_def bind_exn_def Let_def
      reduction_percent_eq)

lemma tally_outcomes_eq:
  assumes "list_all has_basic_keys (map (Pair orig) opts)"
  shows "tally_outcomes orig opts t =
     Inr (t\<lparr>successful_optimizations :=
               successful_optimizations t + length (filter is_successful (map (Pair orig) opts)),
             total_execution_time :=
               total_execution_time t
                 + sum_list (map time_of (filter is_successful (map (Pair orig) opts))),
             size_reductions :=
               size_reductions t @ map reduction_of (filter is_counted (map (Pair orig) opts))\<rparr>)"
  using assms
proof (induction opts arbitrary: t)
  case Nil
  then show ?case by simp
next
  case (Cons opt opts)
  from Cons.prems have 1: "has_basic_keys (orig, opt)"
    and 2: "list_all has_basic_keys (map (Pair orig) opts)"
    by simp_all
  show ?case
    by (simp add: tally_outcome_eq [OF 1] Cons.IH [OF 2] bind_exn_def add.assoc)
qed

lemma tally_results_eq:
  assumes "list_all has_basic_keys (all_outcomes results)"
  shows "tally_results results t =
     Inr (t\<lparr>successful_optimizations :=
               successful_optimizations t + length (successful_outcomes results),
             total_execution_time :=
               total_execution_time t + sum_list (map time_of (successful_outcomes results)),
             size_reductions :=
               size_reductions t @ map reduction_of (counted_outcomes results)\<rparr>)"
  using assms
proof (induction results arbitrary: t)
  case Nil
  then show ?case
    by (simp add: all_outcomes_def successful_outcomes_def counted_outcomes_def)
next
  case (Cons result results)
  from Cons.prems
  have 1: "list_all has_basic_keys (map (Pair (original_stats result)) (optimizations result))"
    and 2: "list_all has_basic_keys (all_outcomes results)"
    by (simp_all add: all_outcomes_def)
  have split: "all_outcomes (result # results)
      = map (Pair (original_stats result)) (optimizations result) @ all_outcomes results"
    by (simp add: all_outcomes_def)
  show ?case
    by (simp add: tally_outcomes_eq [OF 1] Cons.IH [OF 2] bind_exn_def split
        successful_outcomes_def counted_outcomes_def add.assoc)
qed

text \<open>
  Every result of \<open>benchmark_file\<close> has one outcome per configuration, each with the
  keys the executive summary reads; so have the results that \<open>run_full_benchmark\<close>
  collects.
\<close>

lemma benchmark_file_basic_keys:
  assumes "benchmark_file E self f w = (Inr result, w')"
  shows "length (optimizations result) = length configurations
       \<and> list_all has_basic_keys (map (Pair (original_stats result)) (optimizations result))"
proof -
  note rec = benchmark_file_recorded [OF assms]
  have "has_basic_keys (orig, r)" if "r \<in> set (optimizations result)" for r orig
  proof -
    from that obtain i where "i < length (optimizations result)"
      and "optimizations result ! i = r"
      by (auto simp: in_set_conv_nth)
    with list_all2_nthD2 [OF rec, of i]
    have "case configurations ! i of
            (m, g, d) \<Rightarrow> \<exists>w1 w2. run_optimization E self f m g d w1 = (Inr r, w2)"
      by (simp add: case_prod_beta)
    then obtain m g d w1 w2 where "run_optimization E self f m g d w1 = (Inr r, w2)"
      by (cases "configurations ! i") auto
    from run_optimization_shape [OF this] show ?thesis
      by (simp add: has_basic_keys_def)
  qed
  with rec show ?thesis
    by (auto simp: list_all_iff dest: list_all2_lengthD)
qed

lemma benchmark_files_basic_keys:
  assumes "benchmark_files E self files acc w = (Inr results, w')"
      and "list_all has_basic_keys (all_outcomes acc)"
  shows "list_all has_basic_keys (all_outcomes results)"
  using assms
proof (induction files arbitrary: acc w)
  case Nil
  then show ?case by simp
next
  case (Cons f files)
  from Cons.prems(1) obtain result w1
    where one: "benchmark_file E self f w = (Inr result, w1)"
      and rest: "benchmark_files E self files (acc @ [result]) w1 = (Inr results, w')"
    by (auto split: prod.splits sum.splits)
  from benchmark_file_basic_keys [OF one] Cons.prems(2)
  have "list_all has_basic_keys (all_outcomes (acc @ [result]))"
    by (simp add: all_outcomes_def)
  from Cons.IH [OF rest this] show ?case .
qed

text \<open>
  C7 (as stated, refuted): the mean size reduction is claimed to be taken over all
  outcomes that produced output statistics.  For the example results (an empty file
  and a file of ten characters, every output of the second of five characters) the
  source averages the four reductions of the second file only, which gives 50; the
  mean over all eight outcomes with output statistics is 25.
\<close>

theorem mean_size_reduction_counterexample:
  "executive_summary example_results
     = Inr \<lparr>total_files = 2, successes = 8, avg_execution_time = 1 / 2,
            avg_size_reduction = 50, success_rate = 100\<rparr>
   \<and> spec_avg_size_reduction example_results = 25"
  by (simp add: executive_summary_def tally_outcome_def bind_exn_def getitem_def
      reduction_percent_def truediv_def Let_def example_results_def example_outcome_def
      spec_avg_size_reduction_def mean_def all_outcomes_def has_output_stats_def
      reduction_of_def percent_def)

text \<open>
  C7 (amended): when every outcome has the keys \<open>success\<close> and \<open>execution_time\<close>, the
  executive summary never raises; its mean size reduction is taken over the successful
  outcomes that produced output statistics for a file whose original has characters,
  and its mean execution time over the successful outcomes, both means with the
  divisor \<open>max(count, 1)\<close>; the success rate is the percentage
  \<open>successes / max(files * 4, 1) * 100\<close>, 4 being the number of configurations per file.
\<close>

theorem executive_summary_means:
  assumes "list_all has_basic_keys (all_outcomes results)"
  shows "executive_summary results =
     Inr \<lparr>total_files = length results,
          successes = length (successful_outcomes results),
          avg_execution_time = mean (map time_of (successful_outcomes results)),
          avg_size_reduction = mean (map reduction_of (counted_outcomes results)),
          success_rate =
            of_nat (length (successful_outcomes results))
              / of_nat (max (length results * length configurations) 1) * 100\<rparr>"
proof -
  have nonzero: "(of_nat (max n 1) :: rat) \<noteq> 0" for n
    by simp
  have four: "length configurations = 4"
    by (simp add: configurations_def)
  show ?thesis
    unfolding executive_summary_def Let_def tally_results_eq [OF assms] four
    by (simp add: bind_exn_def truediv_def mean_def nonzero del: of_nat_max)
qed

theorem executive_summary_means_witness:
  "list_all has_basic_keys (all_outcomes example_results)
   \<and> length (successful_outcomes example_results) = 8
   \<and> mean (map reduction_of (counted_outcomes example_results)) = 50
   \<and> executive_summary example_results
       = Inr \<lparr>total_files = 2, successes = 8, avg_execution_time = 1 / 2,
              avg_size_reduction = 50, success_rate = 100\<rparr>"
proof -
  have keys: "list_all has_basic_keys (all_outcomes example_results)"
    by (simp add: all_outcomes_def example_results_def example_outcome_def has_basic_keys_def)
  have n: "length (successful_outcomes example_results) = 8"
    by (simp add: successful_outcomes_def all_outcomes_def example_results_def
        example_outcome_def is_successful_def)
  have m: "mean (map reduction_of (counted_outcomes example_results)) = 50"
    by (simp add: counted_outcomes_def all_outcomes_def example_results_def
        example_outcome_def is_counted_def is_successful_def has_output_stats_def mean_def
        reduction_of_def percent_def)
  have t: "mean (map time_of (successful_outcomes example_results)) = 1 / 2"
    by (simp add: successful_outcomes_def all_outcomes_def example_results_def
        example_outcome_def is_successful_def mean_def time_of_def)
  from executive_summary_means [OF keys] keys n m t show ?thesis
    by (simp add: example_results_def configurations_def)
qed

section \<open>Properties of \<open>main\<close>\<close>

text \<open>
  C9: if the examples directory is absent or contains no \<open>.llm\<close> file, \<open>main\<close> returns
  the exit status 1 and changes nothing but the printed output: no subprocess is
  started, the file system is as before (no report file is written), and the last text
  printed is the failure message.  Before it, only the two lines of the banner are
  printed, and these only if the executable was found.
\<close>

theorem no_examples_aborts:
  assumes "\<not> path_exists (fs w) (path_parent script @ [lit ''examples''])
         \<or> glob_llm (fs w) (path_parent script @ [lit ''examples'']) = []"
  shows "main E script w =
     (1, w\<lparr>printed := printed w
            @ (if path_exists (fs w) (path_parent (path_parent script) @ [lit ''build'', lit ''cql''])
               then [[128640] @ lit '' Starting Meta-Prompt Compiler Benchmark'',
                     replicate 50 61]
               else [])
            @ [[10060] @ lit '' Benchmark failed: ''
               @ (if \<not> path_exists (fs w)
                         (path_parent (path_parent script) @ [lit ''build'', lit ''cql''])
                  then lit ''CQL executable not found at ''
                       @ path_str (path_parent (path_parent script) @ [lit ''build'', lit ''cql''])
                  else if \<not> path_exists (fs w) (path_parent script @ [lit ''examples''])
                  then lit ''Examples directory not found: ''
                       @ path_str (path_parent script @ [lit ''examples''])
                  else lit ''No .llm files found in ''
                       @ path_str (path_parent script @ [lit ''examples'']))]\<rparr>)"
  using assms
  by (auto simp: main_def init_def run_full_benchmark_def print_def Let_def)

text \<open>The checkout whose examples directory is empty.\<close>

theorem no_examples_aborts_witness:
  "glob_llm (fs (example_world no_examples_fs)) (path_parent example_script @ [lit ''examples''])
     = []
   \<and> main (example_env TimeoutExpired None) example_script (example_world no_examples_fs) =
       (1, \<lparr>fs = no_examples_fs, clock = 0, spawned = [],
            printed = [[128640] @ lit '' Starting Meta-Prompt Compiler Benchmark'',
                       replicate 50 61,
                       [10060] @ lit '' Benchmark failed: No .llm files found in demo/examples'']\<rparr>)"
proof -
  have none: "glob_llm (fs (example_world no_examples_fs))
      (path_parent example_script @ [lit ''examples'']) = []"
    by (simp add: glob_llm_def endswith_def example_world_def no_examples_fs_def
        example_script_def path_parent_def lit_def)
  then have "\<not> path_exists (fs (example_world no_examples_fs))
         (path_parent example_script @ [lit ''examples''])
       \<or> glob_llm (fs (example_world no_examples_fs))
         (path_parent example_script @ [lit ''examples'']) = []"
    by simp
  from no_examples_aborts [OF this] none show ?thesis
    by (simp add: example_world_def no_examples_fs_def example_script_def path_parent_def
        path_exists_def path_str_def lit_def)
qed

end
